theory Spec2Isabelle
  imports Complex_Main
begin

section \<open>Python values and strings\<close>

text \<open>
  A Python \<open>str\<close> is a sequence of Unicode code points; it is modelled as a list of
  natural numbers, so that the whitespace test of \<open>str.strip\<close> ranges over all of
  Unicode and not only over 8-bit characters. \<open>u\<close> reads a string literal of the source
  as such a sequence.
\<close>

type_synonym pystr = "nat list"

definition u :: "string \<Rightarrow> pystr" where
  "u s = map of_char s"

text \<open>\<open>str.isspace\<close> on one code point: the whitespace table of CPython.\<close>

definition isspace :: "nat \<Rightarrow> bool" where
  "isspace c \<longleftrightarrow>
     (9 \<le> c \<and> c \<le> 13) \<or> (28 \<le> c \<and> c \<le> 32) \<or> c = 133 \<or> c = 160 \<or> c = 5760 \<or>
     (8192 \<le> c \<and> c \<le> 8202) \<or> c = 8232 \<or> c = 8233 \<or> c = 8239 \<or> c = 8287 \<or> c = 12288"

definition lstrip :: "pystr \<Rightarrow> pystr" where
  "lstrip s = dropWhile isspace s"

definition rstrip :: "pystr \<Rightarrow> pystr" where
  "rstrip s = rev (dropWhile isspace (rev s))"

text \<open>\<open>s.strip()\<close> with no argument.\<close>

definition strip :: "pystr \<Rightarrow> pystr" where
  "strip s = rstrip (lstrip s)"

text \<open>
  What \<open>json.load\<close> returns: \<open>None\<close>, a bool, an int, a float, a str, a list or a
  dict with string keys. A dict is kept as its list of items and read with \<open>map_of\<close>.
  A float is kept as mantissa and decimal exponent; no claim looks inside one.
\<close>

datatype pyval =
    PNone
  | PBool bool
  | PInt int
  | PFloat int int
  | PStr pystr
  | PList "pyval list"
  | PDict "(pystr \<times> pyval) list"

text \<open>\<open>type(v).__name__\<close>, as it appears in the message of an AttributeError.\<close>

fun type_name :: "pyval \<Rightarrow> pystr" where
  "type_name PNone = u ''NoneType''"
| "type_name (PBool b) = u ''bool''"
| "type_name (PInt i) = u ''int''"
| "type_name (PFloat m e) = u ''float''"
| "type_name (PStr s) = u ''str''"
| "type_name (PList xs) = u ''list''"
| "type_name (PDict kvs) = u ''dict''"

section \<open>Exceptions and results\<close>

text \<open>
  The exception classes that occur in the program and in the library calls it makes.
  All of them are subclasses of \<open>Exception\<close>. The classes from \<open>OpenAIError\<close> on are
  those of \<open>openai.error\<close>, which all derive from \<open>OpenAIError\<close>.
\<close>

datatype exc_kind =
    FileNotFoundError
  | PermissionError
  | UnicodeDecodeError
  | UnicodeEncodeError
  | JSONDecodeError
  | AttributeError
  | IndexError
  | ValueError
  | RuntimeError
  | OpenAIError
  | AuthenticationError
  | RateLimitError
  | APIConnectionError
  | APIError

text \<open>\<open>isinstance(e, OpenAIError)\<close>, the test of the \<open>except\<close> clause in \<open>ask\<close>.\<close>

fun is_OpenAIError :: "exc_kind \<Rightarrow> bool" where
  "is_OpenAIError OpenAIError = True"
| "is_OpenAIError AuthenticationError = True"
| "is_OpenAIError RateLimitError = True"
| "is_OpenAIError APIConnectionError = True"
| "is_OpenAIError APIError = True"
| "is_OpenAIError k = False"

text \<open>An exception instance: its class and \<open>str(e)\<close>.\<close>

datatype exc = Exc (kind: exc_kind) (descr: pystr)

text \<open>
  How a statement sequence ends: normally with a value, by raising an instance of
  \<open>Exception\<close>, or by \<open>sys.exit(n)\<close>. \<open>SystemExit\<close> is not a subclass of \<open>Exception\<close>,
  so an \<open>except Exception\<close> clause lets \<open>Exit\<close> through.
\<close>

datatype 'a res = Ok 'a | Raise exc | Exit nat

section \<open>The world outside the program\<close>

text \<open>The keyword arguments of \<open>client.chat.completions.create\<close>, with the client's key.\<close>

record request =
  req_api_key :: pystr
  req_model :: pystr
  req_messages :: "(pystr \<times> pystr) list"
  req_temperature :: rat

text \<open>
  The response object, as far as \<open>ask\<close> reads it: the list \<open>response.choices\<close>, each
  choice given by its \<open>message.content\<close>, which is a str or \<open>None\<close>.
\<close>

datatype completion = Completion (choices: "pystr option list")

text \<open>
  The environment variables, the file system, the JSON parser of the standard library
  and the remote service are parameters of the model. \<open>open_read p\<close> is what opening
  \<open>p\<close> for reading as UTF-8 and reading it to the end gives: the text or the exception
  raised. \<open>json_loads\<close> is the parser on that text. \<open>create\<close> is the remote exchange.
  \<open>stdout_encodes\<close> tells which code points beyond ASCII the encoding of \<open>sys.stdout\<close>
  can encode (UTF-8 encodes all but the surrogates).
\<close>

record world =
  getenv :: "pystr \<Rightarrow> pystr option"
  open_read :: "pystr \<Rightarrow> exc + pystr"
  json_loads :: "pystr \<Rightarrow> exc + pyval"
  create :: "request \<Rightarrow> exc + completion"
  stdout_encodes :: "nat \<Rightarrow> bool"

text \<open>A record of the logger: level, message and, for \<open>logger.exception\<close>, the exception.\<close>

datatype level = INFO | ERROR

datatype log_record = LogRecord (lvl: level) (msg: pystr) (exc_info: "exc option")

text \<open>
  What the process has done so far: the text written to standard output, the records
  the logger has emitted (its handler writes to standard error), the requests sent to
  the remote service and the paths it has tried to open, each in order.
\<close>

record state =
  stdout :: pystr
  logged :: "log_record list"
  calls :: "request list"
  opened :: "pystr list"

definition init_state :: state where
  "init_state = \<lparr>stdout = [], logged = [], calls = [], opened = []\<rparr>"

text \<open>
  Whether standard output can encode a code point. The encodings Python uses for
  \<open>sys.stdout\<close> all encode ASCII; the rest depends on the encoding in use.
\<close>

definition encodable :: "world \<Rightarrow> nat \<Rightarrow> bool" where
  "encodable w c \<longleftrightarrow> c < 128 \<or> stdout_encodes w c"

text \<open>
  \<open>print(s)\<close>: the text and a newline. The text is encoded as a whole before any of it
  is written, so a text holding a code point that standard output cannot encode raises
  UnicodeEncodeError and writes nothing.
\<close>

definition print :: "world \<Rightarrow> pystr \<Rightarrow> state \<Rightarrow> unit res \<times> state" where
  "print w s st =
    (if list_all (encodable w) s then (Ok (), st\<lparr>stdout := stdout st @ s @ [10]\<rparr>)
     else (Raise (Exc UnicodeEncodeError (u ''codec cannot encode character'')), st))"

definition logger_error :: "pystr \<Rightarrow> state \<Rightarrow> state" where
  "logger_error m st = st\<lparr>logged := logged st @ [LogRecord ERROR m None]\<rparr>"

definition logger_info :: "pystr \<Rightarrow> state \<Rightarrow> state" where
  "logger_info m st = st\<lparr>logged := logged st @ [LogRecord INFO m None]\<rparr>"

text \<open>\<open>logger.exception(m)\<close> inside a handler: level ERROR, with the exception handled.\<close>

definition logger_exception :: "pystr \<Rightarrow> exc \<Rightarrow> state \<Rightarrow> state" where
  "logger_exception m e st = st\<lparr>logged := logged st @ [LogRecord ERROR m (Some e)]\<rparr>"

section \<open>config/settings.py\<close>

text \<open>\<open>OPENAI_API_KEY = os.getenv("OPENAI_API_KEY", "")\<close>\<close>

definition OPENAI_API_KEY :: "world \<Rightarrow> pystr" where
  "OPENAI_API_KEY w = (case getenv w (u ''OPENAI_API_KEY'') of None \<Rightarrow> [] | Some v \<Rightarrow> v)"

section \<open>utils/helpers.py\<close>

text \<open>
  \<open>load_json\<close>: open the file and parse it. Neither step has a handler, so whatever
  either raises leaves \<open>load_json\<close>.
\<close>

definition load_json :: "world \<Rightarrow> pystr \<Rightarrow> state \<Rightarrow> pyval res \<times> state" where
  "load_json w file_path st =
    (let st' = st\<lparr>opened := opened st @ [file_path]\<rparr> in
     case open_read w file_path of
       Inl e \<Rightarrow> (Raise e, st')
     | Inr txt \<Rightarrow>
        (case json_loads w txt of
           Inl e \<Rightarrow> (Raise e, st')
         | Inr v \<Rightarrow> (Ok v, st')))"

section \<open>agents/ai_agent.py\<close>

text \<open>The agent object: its \<open>api_key\<close>; the client it holds is built from that key alone.\<close>

datatype agent = Agent (api_key: pystr)

text \<open>The AttributeError of \<open>v.a\<close> for an attribute the type of \<open>v\<close> lacks (39 is the quote).\<close>

definition no_attribute :: "pyval \<Rightarrow> string \<Rightarrow> exc" where
  "no_attribute v a =
     Exc AttributeError
       ([39] @ type_name v @ [39] @ u '' object has no attribute '' @ [39] @ u a @ [39])"

text \<open>
  \<open>CodeGuardianAgent.__init__\<close>: \<open>api_key or os.getenv("OPENAI_API_KEY")\<close> takes the
  argument when it is a non-empty string and the environment variable otherwise;
  \<open>not self.api_key\<close> holds for \<open>None\<close> and for the empty string.
\<close>

definition agent_init :: "world \<Rightarrow> pystr option \<Rightarrow> agent res" where
  "agent_init w arg =
    (let key = (if arg \<noteq> None \<and> arg \<noteq> Some [] then arg else getenv w (u ''OPENAI_API_KEY'')) in
     case key of
       None \<Rightarrow> Raise (Exc ValueError (u ''Missing OpenAI API key.''))
     | Some k \<Rightarrow>
        if k = [] then Raise (Exc ValueError (u ''Missing OpenAI API key.''))
        else Ok (Agent k))"

text \<open>
  The body of the \<open>try\<close> in \<open>ask\<close>: one request with a single user message, then
  \<open>response.choices[0].message.content.strip()\<close>. Indexing an empty list raises
  IndexError, and \<open>None\<close> has no \<open>strip\<close>.
\<close>

definition ask_body :: "world \<Rightarrow> agent \<Rightarrow> pystr \<Rightarrow> pystr \<Rightarrow> rat \<Rightarrow> state \<Rightarrow> pystr res \<times> state" where
  "ask_body w a prompt model temperature st =
    (let rq = \<lparr>req_api_key = api_key a, req_model = model,
               req_messages = [(u ''user'', prompt)], req_temperature = temperature\<rparr>;
         st' = st\<lparr>calls := calls st @ [rq]\<rparr> in
     case create w rq of
       Inl e \<Rightarrow> (Raise e, st')
     | Inr response \<Rightarrow>
        (case choices response of
           [] \<Rightarrow> (Raise (Exc IndexError (u ''list index out of range'')), st')
         | c # cs \<Rightarrow>
            (case c of
               None \<Rightarrow> (Raise (no_attribute PNone ''strip''), st')
             | Some content \<Rightarrow> (Ok (strip content), st'))))"

text \<open>
  \<open>ask\<close>: the handler \<open>except OpenAIError as e\<close> replaces an instance of
  \<open>OpenAIError\<close> by a RuntimeError; any other exception is not handled here.
\<close>

definition ask :: "world \<Rightarrow> agent \<Rightarrow> pystr \<Rightarrow> pystr \<Rightarrow> rat \<Rightarrow> state \<Rightarrow> pystr res \<times> state" where
  "ask w a prompt model temperature st =
    (case ask_body w a prompt model temperature st of
       (Raise e, st') \<Rightarrow>
         if is_OpenAIError (kind e)
         then (Raise (Exc RuntimeError (u ''OpenAI API error: '' @ descr e)), st')
         else (Raise e, st')
     | r \<Rightarrow> r)"

text \<open>The defaults of \<open>ask\<close>: \<open>model="gpt-4"\<close>, \<open>temperature=0.5\<close>.\<close>

definition default_model :: pystr where
  "default_model = u ''gpt-4''"

definition default_temperature :: rat where
  "default_temperature = 1 / 2"

section \<open>main.py\<close>

text \<open>\<open>data.get("question", "").strip()\<close>: only a dict has \<open>get\<close>, only a str has \<open>strip\<close>.\<close>

definition get_question :: "pyval \<Rightarrow> pystr res" where
  "get_question data =
    (case data of
       PDict kvs \<Rightarrow>
        (case (case map_of kvs (u ''question'') of None \<Rightarrow> PStr [] | Some v \<Rightarrow> v) of
           PStr s \<Rightarrow> Ok (strip s)
         | v \<Rightarrow> Raise (no_attribute v ''strip''))
     | v \<Rightarrow> Raise (no_attribute v ''get''))"

text \<open>
  The body of the \<open>try\<close> in \<open>run\<close>. Both calls of \<open>print\<close> are inside the \<open>try\<close>, so
  what they raise reaches the handler of \<open>run\<close>.
\<close>

definition run_body :: "world \<Rightarrow> pystr \<Rightarrow> state \<Rightarrow> unit res \<times> state" where
  "run_body w input_path st =
    (case load_json w input_path st of
       (Raise e, st1) \<Rightarrow> (Raise e, st1)
     | (Exit n, st1) \<Rightarrow> (Exit n, st1)
     | (Ok data, st1) \<Rightarrow>
        (case get_question data of
           Raise e \<Rightarrow> (Raise e, st1)
         | Exit n \<Rightarrow> (Exit n, st1)
         | Ok question \<Rightarrow>
            if question = [] then
              (Exit 1, logger_error (u ''No question provided in input file.'') st1)
            else
              (case agent_init w (Some (OPENAI_API_KEY w)) of
                 Raise e \<Rightarrow> (Raise e, st1)
               | Exit n \<Rightarrow> (Exit n, st1)
               | Ok a \<Rightarrow>
                  (let st2 = logger_info (u ''Sending question to AI agent: '' @ question) st1 in
                   case ask w a question default_model default_temperature st2 of
                     (Raise e, st3) \<Rightarrow> (Raise e, st3)
                   | (Exit n, st3) \<Rightarrow> (Exit n, st3)
                   | (Ok answer, st3) \<Rightarrow>
                      (case print w ([10] @ u ''=== AI Response ==='' @ [10]) st3 of
                         (Raise e, st4) \<Rightarrow> (Raise e, st4)
                       | (Exit n, st4) \<Rightarrow> (Exit n, st4)
                       | (Ok x, st4) \<Rightarrow> print w answer st4)))))"

text \<open>
  \<open>run\<close>: \<open>except Exception\<close> logs the exception and exits with status 1; the
  \<open>sys.exit(1)\<close> of the body is not an \<open>Exception\<close> and passes the handler.
\<close>

definition run :: "world \<Rightarrow> pystr \<Rightarrow> state \<Rightarrow> unit res \<times> state" where
  "run w input_path st =
    (case run_body w input_path st of
       (Raise e, st') \<Rightarrow> (Exit 1, logger_exception (u ''Execution failed:'') e st')
     | r \<Rightarrow> r)"

text \<open>
  The script: \<open>argv\<close> is \<open>sys.argv\<close>, the program name first. The result is the exit
  status of the process with its final state; a script that runs to its end exits with
  status 0, and an exception nobody handles ends the process with status 1. The usage
  line is printed outside any \<open>try\<close>, and \<open>sys.exit(1)\<close> follows it.
\<close>

definition main :: "world \<Rightarrow> pystr list \<Rightarrow> nat \<times> state" where
  "main w argv =
    (if length argv \<noteq> 2 then
       (case print w (u ''Usage: python main.py <path_to_input.json>'') init_state of
          (Ok x, st) \<Rightarrow> (1, st)
        | (Exit n, st) \<Rightarrow> (n, st)
        | (Raise e, st) \<Rightarrow> (1, st))
     else
       (case run w (argv ! 1) init_state of
          (Ok x, st) \<Rightarrow> (0, st)
        | (Exit n, st) \<Rightarrow> (n, st)
        | (Raise e, st) \<Rightarrow> (1, st)))"

section \<open>Example worlds\<close>

text \<open>What UTF-8 encodes: every code point but the surrogates U+D800 to U+DFFF.\<close>

definition utf8_encodes :: "nat \<Rightarrow> bool" where
  "utf8_encodes c \<longleftrightarrow> c < 55296 \<or> 57343 < c"

text \<open>
  A world with one readable file, \<open>input.json\<close>, holding \<open>txt\<close>, which the parser maps
  to \<open>parsed\<close>; the credential variable is \<open>key\<close>; the remote service answers every
  request with \<open>reply\<close>; standard output is encoded as UTF-8.
\<close>

definition example_world :: "pystr option \<Rightarrow> pystr \<Rightarrow> exc + pyval \<Rightarrow> exc + completion \<Rightarrow> world" where
  "example_world key txt parsed reply =
    \<lparr>getenv = (\<lambda>name. if name = u ''OPENAI_API_KEY'' then key else None),
     open_read = (\<lambda>path. if path = u ''input.json'' then Inr txt
                          else Inl (Exc FileNotFoundError (u ''No such file or directory''))),
     json_loads = (\<lambda>t. if t = txt then parsed
                        else Inl (Exc JSONDecodeError (u ''Expecting value''))),
     create = (\<lambda>rq. reply),
     stdout_encodes = utf8_encodes\<rparr>"

definition blank_world :: world where
  "blank_world =
     example_world (Some (u ''sk-test'')) (u ''{\"question\": \"   \"}'')
       (Inr (PDict [(u ''question'', PStr (u ''   ''))]))
       (Inr (Completion [Some (u ''Hello, world.'')]))"

definition no_key_world :: world where
  "no_key_world =
     example_world None (u ''{\"question\": \"hi\"}'')
       (Inr (PDict [(u ''question'', PStr (u ''hi''))]))
       (Inr (Completion [Some (u ''Hello, world.'')]))"

definition hello_world :: world where
  "hello_world =
     example_world (Some (u ''sk-test'')) (u ''{\"question\": \" hi \", \"model\": \"gpt-3\"}'')
       (Inr (PDict [(u ''question'', PStr (u '' hi '')), (u ''model'', PStr (u ''gpt-3''))]))
       (Inr (Completion [Some (u ''Hello, world.'')]))"

text \<open>
  The first choice of the reply is \<open>Hello, world.\<close> between two spaces and a newline; a
  second choice follows it.
\<close>

definition padded_world :: world where
  "padded_world =
     example_world (Some (u ''sk-test'')) (u ''{\"question\": \"hi\"}'')
       (Inr (PDict [(u ''question'', PStr (u ''hi''))]))
       (Inr (Completion [Some ([32, 32] @ u ''Hello, world.'' @ [10]), Some (u ''Bye.'')]))"

text \<open>The text of the reply is the lone surrogate U+D800, which UTF-8 cannot encode.\<close>

definition surrogate_world :: world where
  "surrogate_world =
     example_world (Some (u ''sk-test'')) (u ''{\"question\": \"hi\"}'')
       (Inr (PDict [(u ''question'', PStr (u ''hi''))]))
       (Inr (Completion [Some [55296]]))"

definition empty_choices_world :: world where
  "empty_choices_world =
     example_world (Some (u ''sk-test'')) (u ''{\"question\": \"hi\"}'')
       (Inr (PDict [(u ''question'', PStr (u ''hi''))]))
       (Inr (Completion []))"

definition rate_limited_world :: world where
  "rate_limited_world =
     example_world (Some (u ''sk-test'')) (u ''{\"question\": \"hi\"}'')
       (Inr (PDict [(u ''question'', PStr (u ''hi''))]))
       (Inl (Exc RateLimitError (u ''Rate limit reached'')))"

definition number_world :: world where
  "number_world =
     example_world (Some (u ''sk-test'')) (u ''{\"question\": 42}'')
       (Inr (PDict [(u ''question'', PInt 42)]))
       (Inr (Completion [Some (u ''Hello, world.'')]))"

definition truncated_world :: world where
  "truncated_world =
     example_world (Some (u ''sk-test'')) (u ''{'')
       (Inl (Exc JSONDecodeError (u ''Expecting property name enclosed in double quotes'')))
       (Inr (Completion [Some (u ''Hello, world.'')]))"

definition pair_world :: world where
  "pair_world =
    \<lparr>getenv = (\<lambda>name. if name = u ''OPENAI_API_KEY'' then Some (u ''sk-test'') else None),
     open_read = (\<lambda>path. if path = u ''a.json'' then Inr (u ''{\"question\": \"hi\"}'')
                          else if path = u ''b.json''
                          then Inr (u ''{\"model\": \"gpt-3\", \"question\": \"hi\"}'')
                          else Inl (Exc FileNotFoundError (u ''No such file or directory''))),
     json_loads = (\<lambda>t. if t = u ''{\"question\": \"hi\"}''
                        then Inr (PDict [(u ''question'', PStr (u ''hi''))])
                        else if t = u ''{\"model\": \"gpt-3\", \"question\": \"hi\"}''
                        then Inr (PDict [(u ''model'', PStr (u ''gpt-3'')),
                                         (u ''question'', PStr (u ''hi''))])
                        else Inl (Exc JSONDecodeError (u ''Expecting value''))),
     create = (\<lambda>rq. Inr (Completion [Some (u ''Hello, world.'')])),
     stdout_encodes = utf8_encodes\<rparr>"

section \<open>Trimming\<close>

lemma strip_empty_iff: "strip s = [] \<longleftrightarrow> (\<forall>c\<in>set s. isspace c)"
proof
  assume "strip s = []"
  then have all: "\<forall>c\<in>set (dropWhile isspace s). isspace c"
    by (simp add: strip_def rstrip_def lstrip_def)
  have "dropWhile isspace s = []"
  proof (cases "dropWhile isspace s")
    case Nil then show ?thesis .
  next
    case (Cons a as)
    then have "\<not> isspace a" using hd_dropWhile[of isspace s] by auto
    with Cons all show ?thesis by auto
  qed
  then show "\<forall>c\<in>set s. isspace c" by simp
next
  assume "\<forall>c\<in>set s. isspace c"
  then have "dropWhile isspace s = []" by simp
  then show "strip s = []"
    by (simp only: strip_def rstrip_def lstrip_def rev.simps dropWhile.simps)
qed

lemma strip_Nil: "strip [] = []"
  by (simp add: strip_def rstrip_def lstrip_def)

text \<open>
  What \<open>strip\<close> removes and what it leaves: the text is the result between a run of
  whitespace on each side, and a result that is not empty begins and ends with a code
  point that is not whitespace.
\<close>

lemma strip_decomp:
  "\<exists>lead trail. s = lead @ strip s @ trail \<and>
     (\<forall>c\<in>set lead. isspace c) \<and> (\<forall>c\<in>set trail. isspace c)"
proof -
  let ?d = "dropWhile isspace s"
  let ?lead = "takeWhile isspace s"
  let ?trail = "rev (takeWhile isspace (rev ?d))"
  have "rev (takeWhile isspace (rev ?d) @ dropWhile isspace (rev ?d)) = rev (rev ?d)"
    by (simp only: takeWhile_dropWhile_id)
  then have "rev (dropWhile isspace (rev ?d)) @ ?trail = ?d"
    by (simp only: rev_append rev_rev_ident)
  then have d: "?d = strip s @ ?trail"
    by (simp only: strip_def rstrip_def lstrip_def)
  have "s = ?lead @ ?d" by simp
  with d have "s = ?lead @ strip s @ ?trail" by simp
  moreover have "\<forall>c\<in>set ?lead. isspace c"
    by (auto dest: set_takeWhileD)
  moreover have "\<forall>c\<in>set ?trail. isspace c"
    by (auto dest: set_takeWhileD)
  ultimately show ?thesis by blast
qed

lemma strip_last: "strip s \<noteq> [] \<Longrightarrow> \<not> isspace (last (strip s))"
proof -
  assume n: "strip s \<noteq> []"
  let ?r = "dropWhile isspace (rev (dropWhile isspace s))"
  have r: "strip s = rev ?r" by (simp add: strip_def rstrip_def lstrip_def)
  with n have "?r \<noteq> []" by simp
  then have "\<not> isspace (hd ?r)" by (rule hd_dropWhile)
  moreover have "last (strip s) = hd ?r" by (simp only: r last_rev)
  ultimately show ?thesis by simp
qed

lemma strip_hd: "strip s \<noteq> [] \<Longrightarrow> \<not> isspace (hd (strip s))"
proof -
  assume n: "strip s \<noteq> []"
  let ?d = "dropWhile isspace s"
  have "rev (takeWhile isspace (rev ?d) @ dropWhile isspace (rev ?d)) = rev (rev ?d)"
    by (simp only: takeWhile_dropWhile_id)
  then have "rev (dropWhile isspace (rev ?d)) @ rev (takeWhile isspace (rev ?d)) = ?d"
    by (simp only: rev_append rev_rev_ident)
  then have d: "?d = strip s @ rev (takeWhile isspace (rev ?d))"
    by (simp only: strip_def rstrip_def lstrip_def)
  with n have "?d \<noteq> []" by (metis append_is_Nil_conv)
  then have "\<not> isspace (hd ?d)" by (rule hd_dropWhile)
  moreover have "hd ?d = hd (strip s)" using d n by (metis hd_append2)
  ultimately show ?thesis by simp
qed

section \<open>Printing\<close>

lemma print_ok:
  "list_all (encodable w) s \<Longrightarrow> print w s st = (Ok (), st\<lparr>stdout := stdout st @ s @ [10]\<rparr>)"
  by (simp add: print_def)

lemma print_fails:
  "\<not> list_all (encodable w) s \<Longrightarrow>
   print w s st = (Raise (Exc UnicodeEncodeError (u ''codec cannot encode character'')), st)"
  by (simp add: print_def)

lemma print_header:
  "print w ([10] @ u ''=== AI Response ==='' @ [10]) st =
     (Ok (), st\<lparr>stdout := stdout st @ [10] @ u ''=== AI Response ==='' @ [10] @ [10]\<rparr>)"
  by (simp add: print_def encodable_def u_def)

lemma usage_encodable:
  "list_all (encodable w) (u ''Usage: python main.py <path_to_input.json>'')"
  by (simp add: encodable_def u_def)

section \<open>Steps of the run\<close>

lemma load_json_ok:
  "open_read w p = Inr txt \<Longrightarrow> json_loads w txt = Inr v \<Longrightarrow>
   load_json w p st = (Ok v, st\<lparr>opened := opened st @ [p]\<rparr>)"
  by (simp add: load_json_def)

lemma load_json_open_fails:
  "open_read w p = Inl e \<Longrightarrow> load_json w p st = (Raise e, st\<lparr>opened := opened st @ [p]\<rparr>)"
  by (simp add: load_json_def)

lemma load_json_parse_fails:
  "open_read w p = Inr txt \<Longrightarrow> json_loads w txt = Inl e \<Longrightarrow>
   load_json w p st = (Raise e, st\<lparr>opened := opened st @ [p]\<rparr>)"
  by (simp add: load_json_def)

lemma get_question_missing:
  "map_of kvs (u ''question'') = None \<Longrightarrow> get_question (PDict kvs) = Ok []"
  by (simp add: get_question_def strip_Nil)

lemma get_question_str:
  "map_of kvs (u ''question'') = Some (PStr s) \<Longrightarrow> get_question (PDict kvs) = Ok (strip s)"
  by (simp add: get_question_def)

lemma get_question_not_str:
  "map_of kvs (u ''question'') = Some x \<Longrightarrow> \<forall>s. x \<noteq> PStr s \<Longrightarrow>
   get_question (PDict kvs) = Raise (no_attribute x ''strip'')"
  by (cases x) (simp_all add: get_question_def)

lemma get_question_not_dict:
  "\<forall>kvs. v \<noteq> PDict kvs \<Longrightarrow> get_question v = Raise (no_attribute v ''get'')"
  by (cases v) (simp_all add: get_question_def)

lemma run_body_load_raises:
  "load_json w p st = (Raise e, st1) \<Longrightarrow> run_body w p st = (Raise e, st1)"
  by (simp add: run_body_def)

lemma run_body_question_raises:
  "load_json w p st = (Ok data, st1) \<Longrightarrow> get_question data = Raise e \<Longrightarrow>
   run_body w p st = (Raise e, st1)"
  by (simp add: run_body_def)

lemma run_body_no_question:
  "load_json w p st = (Ok data, st1) \<Longrightarrow> get_question data = Ok [] \<Longrightarrow>
   run_body w p st = (Exit 1, logger_error (u ''No question provided in input file.'') st1)"
  by (simp add: run_body_def)

lemma run_body_no_key:
  "load_json w p st = (Ok data, st1) \<Longrightarrow> get_question data = Ok q \<Longrightarrow> q \<noteq> [] \<Longrightarrow>
   agent_init w (Some (OPENAI_API_KEY w)) = Raise e \<Longrightarrow>
   run_body w p st = (Raise e, st1)"
  by (simp add: run_body_def)

lemma run_body_asks:
  "load_json w p st = (Ok data, st1) \<Longrightarrow> get_question data = Ok q \<Longrightarrow> q \<noteq> [] \<Longrightarrow>
   agent_init w (Some (OPENAI_API_KEY w)) = Ok a \<Longrightarrow>
   run_body w p st =
     (case ask w a q default_model default_temperature
             (logger_info (u ''Sending question to AI agent: '' @ q) st1) of
        (Raise e, st3) \<Rightarrow> (Raise e, st3)
      | (Exit n, st3) \<Rightarrow> (Exit n, st3)
      | (Ok answer, st3) \<Rightarrow>
          print w answer (st3\<lparr>stdout := stdout st3 @ [10] @ u ''=== AI Response ==='' @ [10] @ [10]\<rparr>))"
  unfolding run_body_def print_header by (simp split: prod.splits res.splits)

lemma main_two_args:
  "main w [prog, p] =
     (case run w p init_state of
        (Ok x, st) \<Rightarrow> (0, st) | (Exit n, st) \<Rightarrow> (n, st) | (Raise e, st) \<Rightarrow> (1, st))"
  by (simp add: main_def)

lemma main_body_raises:
  "run_body w p init_state = (Raise e, st) \<Longrightarrow>
   main w [prog, p] = (1, logger_exception (u ''Execution failed:'') e st)"
  by (simp add: main_two_args run_def)

lemma main_body_exits:
  "run_body w p init_state = (Exit n, st) \<Longrightarrow> main w [prog, p] = (n, st)"
  by (simp add: main_two_args run_def)

lemma main_body_ok:
  "run_body w p init_state = (Ok x, st) \<Longrightarrow> main w [prog, p] = (0, st)"
  by (simp add: main_two_args run_def)

lemma agent_init_raises_iff:
  "agent_init w arg = Raise (Exc ValueError (u ''Missing OpenAI API key.'')) \<longleftrightarrow>
   (arg = None \<or> arg = Some []) \<and>
   (getenv w (u ''OPENAI_API_KEY'') = None \<or> getenv w (u ''OPENAI_API_KEY'') = Some [])"
  by (auto simp add: agent_init_def Let_def split: option.splits if_splits)

lemma agent_init_cases:
  "agent_init w arg = Raise (Exc ValueError (u ''Missing OpenAI API key.'')) \<or>
   (\<exists>k. k \<noteq> [] \<and> agent_init w arg = Ok (Agent k))"
  by (auto simp add: agent_init_def Let_def split: option.splits if_splits)

lemma agent_init_from_env:
  "getenv w (u ''OPENAI_API_KEY'') = Some k \<Longrightarrow> k \<noteq> [] \<Longrightarrow>
   agent_init w (Some (OPENAI_API_KEY w)) = Ok (Agent k)"
  by (simp add: agent_init_def OPENAI_API_KEY_def)

lemma ask_state:
  "snd (ask w a q m t st) =
     st\<lparr>calls := calls st @ [\<lparr>req_api_key = api_key a, req_model = m,
                               req_messages = [(u ''user'', q)], req_temperature = t\<rparr>]\<rparr>"
  by (simp add: ask_def ask_body_def Let_def split: sum.splits list.splits option.splits)

lemma ask_result_indep: "fst (ask w a q m t st) = fst (ask w a q m t st')"
  by (simp add: ask_def ask_body_def Let_def split: sum.splits list.splits option.splits)

lemma ask_first_choice:
  "create w \<lparr>req_api_key = api_key a, req_model = m,
             req_messages = [(u ''user'', q)], req_temperature = t\<rparr> = Inr (Completion (Some c # cs)) \<Longrightarrow>
   fst (ask w a q m t st) = Ok (strip c)"
  by (simp add: ask_def ask_body_def)

text \<open>The whole run once the file has been loaded, by the result of each step.\<close>

lemma main_after_load:
  assumes o: "open_read w p = Inr txt" and j: "json_loads w txt = Inr data"
  shows "main w [prog, p] =
    (case get_question data of
       Raise e \<Rightarrow>
         (1, \<lparr>stdout = [], logged = [LogRecord ERROR (u ''Execution failed:'') (Some e)],
              calls = [], opened = [p]\<rparr>)
     | Exit n \<Rightarrow> (n, \<lparr>stdout = [], logged = [], calls = [], opened = [p]\<rparr>)
     | Ok q \<Rightarrow>
        if q = [] then
          (1, \<lparr>stdout = [],
               logged = [LogRecord ERROR (u ''No question provided in input file.'') None],
               calls = [], opened = [p]\<rparr>)
        else
          (case agent_init w (Some (OPENAI_API_KEY w)) of
             Raise e \<Rightarrow>
               (1, \<lparr>stdout = [], logged = [LogRecord ERROR (u ''Execution failed:'') (Some e)],
                    calls = [], opened = [p]\<rparr>)
           | Exit n \<Rightarrow> (n, \<lparr>stdout = [], logged = [], calls = [], opened = [p]\<rparr>)
           | Ok a \<Rightarrow>
              (case fst (ask w a q default_model default_temperature init_state) of
                 Raise e \<Rightarrow>
                   (1, \<lparr>stdout = [],
                        logged = [LogRecord INFO (u ''Sending question to AI agent: '' @ q) None,
                                  LogRecord ERROR (u ''Execution failed:'') (Some e)],
                        calls = [\<lparr>req_api_key = api_key a, req_model = default_model,
                                  req_messages = [(u ''user'', q)],
                                  req_temperature = default_temperature\<rparr>],
                        opened = [p]\<rparr>)
               | Exit n \<Rightarrow>
                   (n, \<lparr>stdout = [],
                        logged = [LogRecord INFO (u ''Sending question to AI agent: '' @ q) None],
                        calls = [\<lparr>req_api_key = api_key a, req_model = default_model,
                                  req_messages = [(u ''user'', q)],
                                  req_temperature = default_temperature\<rparr>],
                        opened = [p]\<rparr>)
               | Ok answer \<Rightarrow>
                   if list_all (encodable w) answer then
                     (0, \<lparr>stdout = [10] @ u ''=== AI Response ==='' @ [10] @ [10] @ answer @ [10],
                          logged = [LogRecord INFO (u ''Sending question to AI agent: '' @ q) None],
                          calls = [\<lparr>req_api_key = api_key a, req_model = default_model,
                                    req_messages = [(u ''user'', q)],
                                    req_temperature = default_temperature\<rparr>],
                          opened = [p]\<rparr>)
                   else
                     (1, \<lparr>stdout = [10] @ u ''=== AI Response ==='' @ [10] @ [10],
                          logged = [LogRecord INFO (u ''Sending question to AI agent: '' @ q) None,
                                    LogRecord ERROR (u ''Execution failed:'')
                                      (Some (Exc UnicodeEncodeError
                                               (u ''codec cannot encode character'')))],
                          calls = [\<lparr>req_api_key = api_key a, req_model = default_model,
                                    req_messages = [(u ''user'', q)],
                                    req_temperature = default_temperature\<rparr>],
                          opened = [p]\<rparr>))))"
proof -
  let ?st1 = "init_state\<lparr>opened := opened init_state @ [p]\<rparr>"
  have l: "load_json w p init_state = (Ok data, ?st1)"
    using o j by (rule load_json_ok)
  show ?thesis
  proof (cases "get_question data")
    case (Raise e)
    have "main w [prog, p] = (1, logger_exception (u ''Execution failed:'') e ?st1)"
      using run_body_question_raises[OF l Raise] by (rule main_body_raises)
    with Raise show ?thesis by (simp add: logger_exception_def init_state_def)
  next
    case (Exit n)
    have "run_body w p init_state = (Exit n, ?st1)"
      using l Exit by (simp add: run_body_def)
    then have "main w [prog, p] = (n, ?st1)" by (rule main_body_exits)
    with Exit show ?thesis by (simp add: init_state_def)
  next
    case (Ok q)
    show ?thesis
    proof (cases "q = []")
      case True
      have "main w [prog, p] =
          (1, logger_error (u ''No question provided in input file.'') ?st1)"
        using run_body_no_question[OF l Ok[unfolded True]] by (rule main_body_exits)
      with Ok True show ?thesis by (simp add: logger_error_def init_state_def)
    next
      case False
      show ?thesis
      proof (cases "agent_init w (Some (OPENAI_API_KEY w))")
        case (Raise e)
        have "main w [prog, p] = (1, logger_exception (u ''Execution failed:'') e ?st1)"
          using run_body_no_key[OF l Ok False Raise] by (rule main_body_raises)
        with Ok False Raise show ?thesis by (simp add: logger_exception_def init_state_def)
      next
        case (Exit n)
        have "run_body w p init_state = (Exit n, ?st1)"
          using l Ok False Exit by (simp add: run_body_def)
        then have "main w [prog, p] = (n, ?st1)" by (rule main_body_exits)
        with Ok False Exit show ?thesis by (simp add: init_state_def)
      next
        case a: (Ok a)
        let ?st2 = "logger_info (u ''Sending question to AI agent: '' @ q) ?st1"
        let ?r = "ask w a q default_model default_temperature ?st2"
        have rb: "run_body w p init_state =
           (case ?r of
              (Raise e, st3) \<Rightarrow> (Raise e, st3)
            | (Exit n, st3) \<Rightarrow> (Exit n, st3)
            | (Ok answer, st3) \<Rightarrow>
                print w answer
                  (st3\<lparr>stdout := stdout st3 @ [10] @ u ''=== AI Response ==='' @ [10] @ [10]\<rparr>))"
          using l Ok False a by (rule run_body_asks)
        have r: "?r = (fst (ask w a q default_model default_temperature init_state),
                       ?st2\<lparr>calls := calls ?st2 @
                          [\<lparr>req_api_key = api_key a, req_model = default_model,
                            req_messages = [(u ''user'', q)],
                            req_temperature = default_temperature\<rparr>]\<rparr>)"
          using ask_state[of w a q default_model default_temperature ?st2]
            ask_result_indep[of w a q default_model default_temperature ?st2 init_state]
          by (metis prod.collapse)
        show ?thesis
        proof (cases "fst (ask w a q default_model default_temperature init_state)")
          case (Raise e)
          have "main w [prog, p] = (1, logger_exception (u ''Execution failed:'') e (snd ?r))"
            by (rule main_body_raises) (simp add: rb r Raise)
          with Ok False a Raise show ?thesis
            by (simp add: ask_state logger_exception_def logger_info_def init_state_def)
        next
          case (Exit n)
          have "main w [prog, p] = (n, snd ?r)"
            by (rule main_body_exits) (simp add: rb r Exit)
          with Ok False a Exit show ?thesis
            by (simp add: ask_state logger_info_def init_state_def)
        next
          case ans: (Ok answer)
          let ?st4 = "(snd ?r)\<lparr>stdout := stdout (snd ?r) @
                         [10] @ u ''=== AI Response ==='' @ [10] @ [10]\<rparr>"
          show ?thesis
          proof (cases "list_all (encodable w) answer")
            case True
            have "main w [prog, p] = (0, ?st4\<lparr>stdout := stdout ?st4 @ answer @ [10]\<rparr>)"
              by (rule main_body_ok) (simp add: rb r ans print_ok[OF True])
            with Ok False a ans True show ?thesis
              by (simp add: ask_state logger_info_def init_state_def)
          next
            case unenc: False
            have "main w [prog, p] =
               (1, logger_exception (u ''Execution failed:'')
                     (Exc UnicodeEncodeError (u ''codec cannot encode character'')) ?st4)"
              by (rule main_body_raises) (simp add: rb r ans print_fails[OF unenc])
            with Ok False a ans unenc show ?thesis
              by (simp add: ask_state logger_exception_def logger_info_def init_state_def)
          qed
        qed
      qed
    qed
  qed
qed

section \<open>Properties of the orchestrator\<close>

text \<open>
  C1. When the parsed object has no \<open>question\<close>, or its \<open>question\<close> is a string that is
  empty or consists of whitespace only, the process exits with status 1 and has sent no
  request to the remote service.
\<close>

theorem blank_question_exits_without_call:
  assumes "open_read w p = Inr txt" and "json_loads w txt = Inr (PDict kvs)"
    and "map_of kvs (u ''question'') = None \<or>
         (\<exists>s. map_of kvs (u ''question'') = Some (PStr s) \<and> (\<forall>c\<in>set s. isspace c))"
  shows "fst (main w [prog, p]) = 1 \<and> calls (snd (main w [prog, p])) = []"
proof -
  have l: "load_json w p init_state = (Ok (PDict kvs), init_state\<lparr>opened := opened init_state @ [p]\<rparr>)"
    using assms(1,2) by (rule load_json_ok)
  have q: "get_question (PDict kvs) = Ok []"
    using assms(3) get_question_missing get_question_str strip_empty_iff by metis
  have "main w [prog, p] =
      (1, logger_error (u ''No question provided in input file.'')
            (init_state\<lparr>opened := opened init_state @ [p]\<rparr>))"
    using run_body_no_question[OF l q] by (rule main_body_exits)
  then show ?thesis by (simp add: logger_error_def init_state_def)
qed

theorem blank_question_exits_without_call_witness:
  "fst (main blank_world [u ''main.py'', u ''input.json'']) = 1 \<and>
   calls (snd (main blank_world [u ''main.py'', u ''input.json''])) = []"
proof -
  have o: "open_read blank_world (u ''input.json'') = Inr (u ''{\"question\": \"   \"}'')"
    by (simp add: blank_world_def example_world_def)
  have j: "json_loads blank_world (u ''{\"question\": \"   \"}'') =
           Inr (PDict [(u ''question'', PStr (u ''   ''))])"
    by (simp add: blank_world_def example_world_def)
  have q: "map_of [(u ''question'', PStr (u ''   ''))] (u ''question'') = None \<or>
           (\<exists>s. map_of [(u ''question'', PStr (u ''   ''))] (u ''question'') = Some (PStr s) \<and>
                (\<forall>c\<in>set s. isspace c))"
    by (simp add: u_def isspace_def)
  show ?thesis using blank_question_exits_without_call [OF o j q] .
qed

text \<open>
  C2, as amended. When the parsed object holds a string \<open>question\<close> that is not empty
  after trimming, and the environment variable \<open>OPENAI_API_KEY\<close> holds a non-empty
  credential, the run sends exactly one request to the remote service: its messages are
  the single user message whose content is the trimmed question (no system prompt, no
  history), with the default model and temperature.
\<close>

theorem valid_question_sends_one_request:
  assumes "open_read w p = Inr txt" and "json_loads w txt = Inr (PDict kvs)"
    and "map_of kvs (u ''question'') = Some (PStr s)" and "strip s \<noteq> []"
    and "getenv w (u ''OPENAI_API_KEY'') = Some k" and "k \<noteq> []"
  shows "calls (snd (main w [prog, p])) =
           [\<lparr>req_api_key = k, req_model = u ''gpt-4'',
             req_messages = [(u ''user'', strip s)], req_temperature = 1 / 2\<rparr>]"
proof -
  have q: "get_question (PDict kvs) = Ok (strip s)"
    using assms(3) by (rule get_question_str)
  have a: "agent_init w (Some (OPENAI_API_KEY w)) = Ok (Agent k)"
    using assms(5,6) by (rule agent_init_from_env)
  show ?thesis
    using assms(4)
    by (simp add: main_after_load[OF assms(1,2)] q a default_model_def default_temperature_def
        split: res.splits)
qed

theorem valid_question_sends_one_request_witness:
  "calls (snd (main hello_world [u ''main.py'', u ''input.json''])) =
     [\<lparr>req_api_key = u ''sk-test'', req_model = u ''gpt-4'',
       req_messages = [(u ''user'', u ''hi'')], req_temperature = 1 / 2\<rparr>]"
proof -
  have o: "open_read hello_world (u ''input.json'') =
             Inr (u ''{\"question\": \" hi \", \"model\": \"gpt-3\"}'')"
    by (simp add: hello_world_def example_world_def)
  have j: "json_loads hello_world (u ''{\"question\": \" hi \", \"model\": \"gpt-3\"}'') =
             Inr (PDict [(u ''question'', PStr (u '' hi '')), (u ''model'', PStr (u ''gpt-3''))])"
    by (simp add: hello_world_def example_world_def)
  have m: "map_of [(u ''question'', PStr (u '' hi '')), (u ''model'', PStr (u ''gpt-3''))]
             (u ''question'') = Some (PStr (u '' hi ''))"
    by simp
  have s: "strip (u '' hi '') = u ''hi''"
    by (simp add: strip_def lstrip_def rstrip_def isspace_def u_def)
  have n: "strip (u '' hi '') \<noteq> []"
    by (simp add: s) (simp add: u_def)
  have e: "getenv hello_world (u ''OPENAI_API_KEY'') = Some (u ''sk-test'')"
    by (simp add: hello_world_def example_world_def)
  have k: "u ''sk-test'' \<noteq> []"
    by (simp add: u_def)
  show ?thesis using valid_question_sends_one_request [OF o j m n e k] by (simp add: s)
qed

text \<open>
  C2, as first stated, asks for one request for every valid input file. With the
  credential variable unset, the file \<open>{"question": "hi"}\<close> is loaded, its question is
  \<open>hi\<close>, and the constructor of the agent raises before \<open>ask\<close> is reached: no request is
  sent and the process exits with status 1.
\<close>

theorem valid_question_without_credential_sends_nothing:
  "fst (load_json no_key_world (u ''input.json'') init_state) =
     Ok (PDict [(u ''question'', PStr (u ''hi''))]) \<and>
   get_question (PDict [(u ''question'', PStr (u ''hi''))]) = Ok (u ''hi'') \<and>
   main no_key_world [u ''main.py'', u ''input.json''] =
     (1, \<lparr>stdout = [],
          logged = [LogRecord ERROR (u ''Execution failed:'')
                      (Some (Exc ValueError (u ''Missing OpenAI API key.'')))],
          calls = [], opened = [u ''input.json'']\<rparr>)"
  by (simp add: no_key_world_def example_world_def main_def run_def run_body_def load_json_def
      get_question_def agent_init_def OPENAI_API_KEY_def init_state_def logger_exception_def
      strip_def lstrip_def rstrip_def isspace_def u_def)

text \<open>
  C3, as amended. When the remote exchange raises an instance of \<open>OpenAIError\<close>
  (authentication failure, rate limit, API error, connection failure), \<open>ask\<close> catches it
  and raises a single RuntimeError whose description is \<open>OpenAI API error: \<close> followed by
  the description of the cause; nothing else leaves \<open>ask\<close> for such a failure, and exactly
  one request has been sent.
\<close>

theorem ask_wraps_OpenAIError:
  assumes "create w \<lparr>req_api_key = api_key a, req_model = model,
                     req_messages = [(u ''user'', prompt)], req_temperature = temperature\<rparr> = Inl e"
    and "is_OpenAIError (kind e)"
  shows "ask w a prompt model temperature st =
           (Raise (Exc RuntimeError (u ''OpenAI API error: '' @ descr e)),
            st\<lparr>calls := calls st @
                 [\<lparr>req_api_key = api_key a, req_model = model,
                   req_messages = [(u ''user'', prompt)], req_temperature = temperature\<rparr>]\<rparr>)"
  using assms by (simp add: ask_def ask_body_def)

theorem ask_wraps_OpenAIError_witness:
  "ask rate_limited_world (Agent (u ''sk-test'')) (u ''hi'') (u ''gpt-4'') (1 / 2) init_state =
     (Raise (Exc RuntimeError (u ''OpenAI API error: '' @ u ''Rate limit reached'')),
      init_state\<lparr>calls := calls init_state @
         [\<lparr>req_api_key = u ''sk-test'', req_model = u ''gpt-4'',
           req_messages = [(u ''user'', u ''hi'')], req_temperature = 1 / 2\<rparr>]\<rparr>)"
proof -
  have c: "create rate_limited_world
             \<lparr>req_api_key = api_key (Agent (u ''sk-test'')), req_model = u ''gpt-4'',
              req_messages = [(u ''user'', u ''hi'')], req_temperature = 1 / 2\<rparr> =
           Inl (Exc RateLimitError (u ''Rate limit reached''))"
    by (simp add: rate_limited_world_def example_world_def)
  have k: "is_OpenAIError (kind (Exc RateLimitError (u ''Rate limit reached'')))"
    by simp
  show ?thesis using ask_wraps_OpenAIError [OF c k] by simp
qed

text \<open>
  C3, as first stated, covers a malformed response too. A response whose list of choices
  is empty makes \<open>response.choices[0]\<close> raise IndexError, which is not an
  \<open>OpenAIError\<close> and leaves \<open>ask\<close> as it is.
\<close>

theorem ask_empty_choices_raises_IndexError:
  "create empty_choices_world
     \<lparr>req_api_key = u ''sk-test'', req_model = u ''gpt-4'',
      req_messages = [(u ''user'', u ''hi'')], req_temperature = 1 / 2\<rparr> = Inr (Completion []) \<and>
   fst (ask empty_choices_world (Agent (u ''sk-test'')) (u ''hi'') (u ''gpt-4'') (1 / 2) init_state) =
     Raise (Exc IndexError (u ''list index out of range''))"
  by (simp add: empty_choices_world_def example_world_def ask_def ask_body_def)

text \<open>
  C4, as amended. In a successful run (the question is valid, the credential is set and
  the remote response has a first choice with text content) whose trimmed response text
  standard output can encode, the process exits with status 0 and standard output is
  exactly an empty line, the header \<open>=== AI Response ===\<close>, an empty line and the trimmed
  response text on a line of its own.
\<close>

theorem successful_run_prints_answer:
  assumes "open_read w p = Inr txt" and "json_loads w txt = Inr (PDict kvs)"
    and "map_of kvs (u ''question'') = Some (PStr s)" and "strip s \<noteq> []"
    and "getenv w (u ''OPENAI_API_KEY'') = Some k" and "k \<noteq> []"
    and "create w \<lparr>req_api_key = k, req_model = u ''gpt-4'',
                   req_messages = [(u ''user'', strip s)], req_temperature = 1 / 2\<rparr> =
         Inr (Completion (Some content # others))"
    and "\<forall>c\<in>set (strip content). encodable w c"
  shows "fst (main w [prog, p]) = 0 \<and>
         stdout (snd (main w [prog, p])) =
           [10] @ u ''=== AI Response ==='' @ [10] @ [10] @ strip content @ [10]"
proof -
  have q: "get_question (PDict kvs) = Ok (strip s)"
    using assms(3) by (rule get_question_str)
  have a: "agent_init w (Some (OPENAI_API_KEY w)) = Ok (Agent k)"
    using assms(5,6) by (rule agent_init_from_env)
  have r: "fst (ask w (Agent k) (strip s) default_model default_temperature init_state) =
             Ok (strip content)"
    using assms(7) by (simp add: ask_first_choice default_model_def default_temperature_def)
  have e: "list_all (encodable w) (strip content)"
    using assms(8) by (simp add: list_all_iff)
  show ?thesis
    using assms(4) by (simp add: main_after_load[OF assms(1,2)] q a r e)
qed

theorem successful_run_prints_answer_witness:
  "fst (main padded_world [u ''main.py'', u ''input.json'']) = 0 \<and>
   stdout (snd (main padded_world [u ''main.py'', u ''input.json''])) =
     [10] @ u ''=== AI Response ==='' @ [10] @ [10] @ u ''Hello, world.'' @ [10]"
proof -
  have o: "open_read padded_world (u ''input.json'') = Inr (u ''{\"question\": \"hi\"}'')"
    by (simp add: padded_world_def example_world_def)
  have j: "json_loads padded_world (u ''{\"question\": \"hi\"}'') =
             Inr (PDict [(u ''question'', PStr (u ''hi''))])"
    by (simp add: padded_world_def example_world_def)
  have m: "map_of [(u ''question'', PStr (u ''hi''))] (u ''question'') = Some (PStr (u ''hi''))"
    by simp
  have s: "strip (u ''hi'') = u ''hi''"
    by (simp add: strip_def lstrip_def rstrip_def isspace_def u_def)
  have n: "strip (u ''hi'') \<noteq> []"
    by (simp add: s) (simp add: u_def)
  have e: "getenv padded_world (u ''OPENAI_API_KEY'') = Some (u ''sk-test'')"
    by (simp add: padded_world_def example_world_def)
  have k: "u ''sk-test'' \<noteq> []"
    by (simp add: u_def)
  have c: "create padded_world \<lparr>req_api_key = u ''sk-test'', req_model = u ''gpt-4'',
               req_messages = [(u ''user'', strip (u ''hi''))], req_temperature = 1 / 2\<rparr> =
           Inr (Completion (Some ([32, 32] @ u ''Hello, world.'' @ [10]) # [Some (u ''Bye.'')]))"
    by (simp add: padded_world_def example_world_def)
  have t: "strip ([32, 32] @ u ''Hello, world.'' @ [10]) = u ''Hello, world.''"
    by (simp add: strip_def lstrip_def rstrip_def isspace_def u_def)
  have x: "\<forall>c\<in>set (strip ([32, 32] @ u ''Hello, world.'' @ [10])). encodable padded_world c"
    unfolding t by (simp add: u_def encodable_def)
  show ?thesis using successful_run_prints_answer [OF o j m n e k c x] unfolding t by simp
qed

text \<open>
  C4, as first stated, promises status 0 whenever the remote response is received. When
  the text of the response is the lone surrogate U+D800 and standard output is encoded as
  UTF-8, \<open>print(answer)\<close> raises UnicodeEncodeError inside the \<open>try\<close> of \<open>run\<close>: the header
  has been printed, the response text has not, the failure is logged and the process
  exits with status 1.
\<close>

theorem unencodable_answer_exits_1:
  "create surrogate_world
     \<lparr>req_api_key = u ''sk-test'', req_model = u ''gpt-4'',
      req_messages = [(u ''user'', u ''hi'')], req_temperature = 1 / 2\<rparr> =
     Inr (Completion [Some [55296]]) \<and>
   main surrogate_world [u ''main.py'', u ''input.json''] =
     (1, \<lparr>stdout = [10] @ u ''=== AI Response ==='' @ [10] @ [10],
          logged = [LogRecord INFO (u ''Sending question to AI agent: '' @ u ''hi'') None,
                    LogRecord ERROR (u ''Execution failed:'')
                      (Some (Exc UnicodeEncodeError (u ''codec cannot encode character'')))],
          calls = [\<lparr>req_api_key = u ''sk-test'', req_model = u ''gpt-4'',
                    req_messages = [(u ''user'', u ''hi'')], req_temperature = 1 / 2\<rparr>],
          opened = [u ''input.json'']\<rparr>)"
proof -
  have o: "open_read surrogate_world (u ''input.json'') = Inr (u ''{\"question\": \"hi\"}'')"
    by (simp add: surrogate_world_def example_world_def)
  have j: "json_loads surrogate_world (u ''{\"question\": \"hi\"}'') =
             Inr (PDict [(u ''question'', PStr (u ''hi''))])"
    by (simp add: surrogate_world_def example_world_def)
  have s: "strip (u ''hi'') = u ''hi''"
    by (simp add: strip_def lstrip_def rstrip_def isspace_def u_def)
  have q: "get_question (PDict [(u ''question'', PStr (u ''hi''))]) = Ok (u ''hi'')"
    by (simp add: get_question_def s)
  have n: "u ''hi'' \<noteq> []"
    by (simp add: u_def)
  have a: "agent_init surrogate_world (Some (OPENAI_API_KEY surrogate_world)) =
             Ok (Agent (u ''sk-test''))"
    by (rule agent_init_from_env) (simp_all add: surrogate_world_def example_world_def u_def)
  have c: "create surrogate_world
             \<lparr>req_api_key = u ''sk-test'', req_model = u ''gpt-4'',
              req_messages = [(u ''user'', u ''hi'')], req_temperature = 1 / 2\<rparr> =
           Inr (Completion [Some [55296]])"
    by (simp add: surrogate_world_def example_world_def)
  have t: "strip [55296] = [55296]"
    by (simp add: strip_def lstrip_def rstrip_def isspace_def)
  have r: "fst (ask surrogate_world (Agent (u ''sk-test'')) (u ''hi'') (u ''gpt-4'') (1 / 2)
                  init_state) = Ok [55296]"
    using c by (simp add: ask_first_choice t)
  have x: "\<not> list_all (encodable surrogate_world) [55296]"
    by (simp add: encodable_def surrogate_world_def example_world_def utf8_encodes_def)
  show ?thesis
    using n x
    by (simp add: main_after_load[OF o j] q a r c default_model_def default_temperature_def)
qed

text \<open>
  C5. The constructor of the agent raises ValueError (\<open>Missing OpenAI API key.\<close>) if and
  only if neither its argument nor the environment variable \<open>OPENAI_API_KEY\<close> holds a
  non-empty string; otherwise it returns an agent with a non-empty key. When the
  constructor fails in \<open>run\<close>, no request has been sent.
\<close>

theorem agent_init_fails_iff_no_credential:
  "(agent_init w arg = Raise (Exc ValueError (u ''Missing OpenAI API key.'')) \<longleftrightarrow>
      (arg = None \<or> arg = Some []) \<and>
      (getenv w (u ''OPENAI_API_KEY'') = None \<or> getenv w (u ''OPENAI_API_KEY'') = Some [])) \<and>
   (agent_init w arg \<noteq> Raise (Exc ValueError (u ''Missing OpenAI API key.'')) \<longrightarrow>
      (\<exists>k. k \<noteq> [] \<and> agent_init w arg = Ok (Agent k))) \<and>
   (agent_init w (Some (OPENAI_API_KEY w)) = Raise (Exc ValueError (u ''Missing OpenAI API key.'')) \<longrightarrow>
      calls (snd (run w p st)) = calls st)"
proof (intro conjI impI)
  show "agent_init w arg = Raise (Exc ValueError (u ''Missing OpenAI API key.'')) \<longleftrightarrow>
      (arg = None \<or> arg = Some []) \<and>
      (getenv w (u ''OPENAI_API_KEY'') = None \<or> getenv w (u ''OPENAI_API_KEY'') = Some [])"
    by (rule agent_init_raises_iff)
next
  assume "agent_init w arg \<noteq> Raise (Exc ValueError (u ''Missing OpenAI API key.''))"
  then show "\<exists>k. k \<noteq> [] \<and> agent_init w arg = Ok (Agent k)"
    using agent_init_cases[of w arg] by blast
next
  assume "agent_init w (Some (OPENAI_API_KEY w)) = Raise (Exc ValueError (u ''Missing OpenAI API key.''))"
  then show "calls (snd (run w p st)) = calls st"
    by (simp add: run_def run_body_def load_json_def logger_error_def logger_exception_def
        Let_def split: sum.splits res.splits)
qed

theorem agent_init_fails_iff_no_credential_witness:
  "agent_init no_key_world None = Raise (Exc ValueError (u ''Missing OpenAI API key.'')) \<and>
   calls (snd (run no_key_world (u ''input.json'') init_state)) = []"
proof -
  have g: "getenv no_key_world (u ''OPENAI_API_KEY'') = None"
    by (simp add: no_key_world_def example_world_def)
  have a: "agent_init no_key_world (Some (OPENAI_API_KEY no_key_world)) =
             Raise (Exc ValueError (u ''Missing OpenAI API key.''))"
    by (simp add: agent_init_def OPENAI_API_KEY_def g)
  show ?thesis
    using agent_init_fails_iff_no_credential [of no_key_world None "u ''input.json''" init_state] g a
    by (simp add: init_state_def)
qed

text \<open>
  C6. When the remote exchange returns a response whose first choice has text content,
  \<open>ask\<close> returns that content with the surrounding whitespace trimmed, whatever the other
  choices are: the content is the result between a run of whitespace on each side, and a
  result that is not empty begins and ends with a code point that is not whitespace.
  Nothing but the sent request is added to the state.
\<close>

theorem ask_returns_trimmed_first_choice:
  assumes "create w \<lparr>req_api_key = api_key a, req_model = model,
                     req_messages = [(u ''user'', prompt)], req_temperature = temperature\<rparr> =
           Inr (Completion (Some content # others))"
  shows "\<exists>answer lead trail.
           ask w a prompt model temperature st =
             (Ok answer,
              st\<lparr>calls := calls st @
                   [\<lparr>req_api_key = api_key a, req_model = model,
                     req_messages = [(u ''user'', prompt)], req_temperature = temperature\<rparr>]\<rparr>) \<and>
           answer = strip content \<and>
           content = lead @ answer @ trail \<and>
           (\<forall>c\<in>set lead. isspace c) \<and> (\<forall>c\<in>set trail. isspace c) \<and>
           (answer \<noteq> [] \<longrightarrow> \<not> isspace (hd answer) \<and> \<not> isspace (last answer))"
proof -
  obtain lead trail where d: "content = lead @ strip content @ trail"
    and l: "\<forall>c\<in>set lead. isspace c" and t: "\<forall>c\<in>set trail. isspace c"
    using strip_decomp[of content] by blast
  have r: "ask w a prompt model temperature st =
             (Ok (strip content),
              st\<lparr>calls := calls st @
                   [\<lparr>req_api_key = api_key a, req_model = model,
                     req_messages = [(u ''user'', prompt)], req_temperature = temperature\<rparr>]\<rparr>)"
    using assms by (simp add: ask_def ask_body_def)
  have e: "strip content \<noteq> [] \<longrightarrow>
             \<not> isspace (hd (strip content)) \<and> \<not> isspace (last (strip content))"
    using strip_hd[of content] strip_last[of content] by blast
  from r d l t e show ?thesis by blast
qed

theorem ask_returns_trimmed_first_choice_witness:
  "fst (ask padded_world (Agent (u ''sk-test'')) (u ''hi'') (u ''gpt-4'') (1 / 2) init_state) =
     Ok (u ''Hello, world.'')"
proof -
  have c: "create padded_world
             \<lparr>req_api_key = api_key (Agent (u ''sk-test'')), req_model = u ''gpt-4'',
              req_messages = [(u ''user'', u ''hi'')], req_temperature = 1 / 2\<rparr> =
           Inr (Completion (Some ([32, 32] @ u ''Hello, world.'' @ [10]) # [Some (u ''Bye.'')]))"
    by (simp add: padded_world_def example_world_def)
  have t: "strip ([32, 32] @ u ''Hello, world.'' @ [10]) = u ''Hello, world.''"
    by (simp add: strip_def lstrip_def rstrip_def isspace_def u_def)
  show ?thesis
    using ask_returns_trimmed_first_choice [OF c, of init_state] unfolding t by auto
qed

text \<open>
  C7. When opening or reading the input file raises, or its contents are not valid
  JSON, \<open>load_json\<close> raises that exception to its caller, and the process logs it at the
  boundary of \<open>run\<close> and exits with status 1, having written nothing to standard output
  and sent no request.
\<close>

theorem unreadable_input_exits_1:
  assumes "open_read w p = Inl e \<or> (\<exists>txt. open_read w p = Inr txt \<and> json_loads w txt = Inl e)"
  shows "fst (load_json w p st) = Raise e \<and>
         main w [prog, p] =
           (1, \<lparr>stdout = [], logged = [LogRecord ERROR (u ''Execution failed:'') (Some e)],
                calls = [], opened = [p]\<rparr>)"
proof -
  have l: "load_json w p st' = (Raise e, st'\<lparr>opened := opened st' @ [p]\<rparr>)" for st'
    using assms load_json_open_fails load_json_parse_fails by blast
  have "main w [prog, p] =
      (1, logger_exception (u ''Execution failed:'') e
            (init_state\<lparr>opened := opened init_state @ [p]\<rparr>))"
    using run_body_load_raises[OF l] by (rule main_body_raises)
  then show ?thesis by (simp add: l logger_exception_def init_state_def)
qed

theorem unreadable_input_exits_1_witness:
  "fst (load_json truncated_world (u ''input.json'') init_state) =
     Raise (Exc JSONDecodeError (u ''Expecting property name enclosed in double quotes'')) \<and>
   fst (main truncated_world [u ''main.py'', u ''input.json'']) = 1 \<and>
   fst (main truncated_world [u ''main.py'', u ''missing.json'']) = 1"
proof -
  have a: "open_read truncated_world (u ''input.json'') =
             Inl (Exc JSONDecodeError (u ''Expecting property name enclosed in double quotes'')) \<or>
           (\<exists>txt. open_read truncated_world (u ''input.json'') = Inr txt \<and>
                  json_loads truncated_world txt =
                    Inl (Exc JSONDecodeError (u ''Expecting property name enclosed in double quotes'')))"
    by (simp add: truncated_world_def example_world_def)
  have b: "open_read truncated_world (u ''missing.json'') =
             Inl (Exc FileNotFoundError (u ''No such file or directory'')) \<or>
           (\<exists>txt. open_read truncated_world (u ''missing.json'') = Inr txt \<and>
                  json_loads truncated_world txt =
                    Inl (Exc FileNotFoundError (u ''No such file or directory'')))"
    by (simp add: truncated_world_def example_world_def u_def)
  show ?thesis
    using unreadable_input_exits_1 [OF a, of init_state "u ''main.py''"] unreadable_input_exits_1 [OF b, of init_state "u ''main.py''"]
    by simp
qed

text \<open>
  C8. When \<open>sys.argv\<close> does not have exactly two entries (the program and one argument),
  the process prints the usage line to standard output and exits with status 1; it
  opens no file, logs nothing and sends no request.
\<close>

theorem usage_error_exits_1:
  assumes "length argv \<noteq> 2"
  shows "main w argv =
           (1, \<lparr>stdout = u ''Usage: python main.py <path_to_input.json>'' @ [10],
                logged = [], calls = [], opened = []\<rparr>)"
  using assms by (simp add: main_def print_ok[OF usage_encodable] init_state_def)

theorem usage_error_exits_1_witness:
  "main hello_world [u ''main.py''] =
     (1, \<lparr>stdout = u ''Usage: python main.py <path_to_input.json>'' @ [10],
          logged = [], calls = [], opened = []\<rparr>) \<and>
   fst (main hello_world [u ''main.py'', u ''a.json'', u ''b.json'']) = 1"
proof -
  have a: "length [u ''main.py''] \<noteq> 2" by simp
  have b: "length [u ''main.py'', u ''a.json'', u ''b.json''] \<noteq> 2" by simp
  show ?thesis using usage_error_exits_1 [OF a, of hello_world] usage_error_exits_1 [OF b, of hello_world] by simp
qed

text \<open>
  C9. Two input files whose parsed objects agree on the key \<open>question\<close> (the same value,
  or both without it) give the same exit status, the same requests, the same standard
  output and the same log records: no other key has any influence on the run.
\<close>

theorem other_keys_ignored:
  assumes "open_read w p1 = Inr txt1" and "json_loads w txt1 = Inr (PDict kvs1)"
    and "open_read w p2 = Inr txt2" and "json_loads w txt2 = Inr (PDict kvs2)"
    and "map_of kvs1 (u ''question'') = map_of kvs2 (u ''question'')"
  shows "fst (main w [prog, p1]) = fst (main w [prog, p2]) \<and>
         calls (snd (main w [prog, p1])) = calls (snd (main w [prog, p2])) \<and>
         stdout (snd (main w [prog, p1])) = stdout (snd (main w [prog, p2])) \<and>
         logged (snd (main w [prog, p1])) = logged (snd (main w [prog, p2]))"
proof -
  have q: "get_question (PDict kvs1) = get_question (PDict kvs2)"
    using assms(5) by (simp add: get_question_def)
  show ?thesis
    by (simp add: main_after_load[OF assms(1,2)] main_after_load[OF assms(3,4)] q
        split: res.splits)
qed

theorem other_keys_ignored_witness:
  "fst (main pair_world [u ''main.py'', u ''a.json'']) =
     fst (main pair_world [u ''main.py'', u ''b.json'']) \<and>
   calls (snd (main pair_world [u ''main.py'', u ''a.json''])) =
     calls (snd (main pair_world [u ''main.py'', u ''b.json''])) \<and>
   stdout (snd (main pair_world [u ''main.py'', u ''a.json''])) =
     stdout (snd (main pair_world [u ''main.py'', u ''b.json''])) \<and>
   logged (snd (main pair_world [u ''main.py'', u ''a.json''])) =
     logged (snd (main pair_world [u ''main.py'', u ''b.json'']))"
proof -
  have o1: "open_read pair_world (u ''a.json'') = Inr (u ''{\"question\": \"hi\"}'')"
    by (simp add: pair_world_def)
  have j1: "json_loads pair_world (u ''{\"question\": \"hi\"}'') =
              Inr (PDict [(u ''question'', PStr (u ''hi''))])"
    by (simp add: pair_world_def)
  have o2: "open_read pair_world (u ''b.json'') =
              Inr (u ''{\"model\": \"gpt-3\", \"question\": \"hi\"}'')"
    by (simp add: pair_world_def u_def)
  have j2: "json_loads pair_world (u ''{\"model\": \"gpt-3\", \"question\": \"hi\"}'') =
              Inr (PDict [(u ''model'', PStr (u ''gpt-3'')), (u ''question'', PStr (u ''hi''))])"
    by (simp add: pair_world_def u_def)
  have m: "map_of [(u ''question'', PStr (u ''hi''))] (u ''question'') =
           map_of [(u ''model'', PStr (u ''gpt-3'')), (u ''question'', PStr (u ''hi''))]
             (u ''question'')"
    by (simp add: u_def)
  show ?thesis using other_keys_ignored [OF o1 j1 o2 j2 m] .
qed

text \<open>
  C10. When the file parses to a value that is not an object, or to an object whose
  \<open>question\<close> is present and not a string, the resulting AttributeError is caught at the
  boundary of \<open>run\<close>: it is logged, the process exits with status 1 and no request is sent.
\<close>

theorem ill_typed_input_exits_1:
  assumes "open_read w p = Inr txt" and "json_loads w txt = Inr v"
    and "(\<forall>kvs. v \<noteq> PDict kvs) \<or>
         (\<exists>kvs x. v = PDict kvs \<and> map_of kvs (u ''question'') = Some x \<and> (\<forall>s. x \<noteq> PStr s))"
  shows "\<exists>e. kind e = AttributeError \<and>
           main w [prog, p] =
             (1, \<lparr>stdout = [], logged = [LogRecord ERROR (u ''Execution failed:'') (Some e)],
                  calls = [], opened = [p]\<rparr>)"
proof -
  have "\<exists>e. kind e = AttributeError \<and> get_question v = Raise e"
    using assms(3) get_question_not_dict get_question_not_str
    by (metis no_attribute_def exc.sel(1))
  then show ?thesis
    by (auto simp add: main_after_load[OF assms(1,2)])
qed

theorem ill_typed_input_exits_1_witness:
  "\<exists>e. kind e = AttributeError \<and>
     main number_world [u ''main.py'', u ''input.json''] =
       (1, \<lparr>stdout = [], logged = [LogRecord ERROR (u ''Execution failed:'') (Some e)],
            calls = [], opened = [u ''input.json'']\<rparr>)"
proof -
  have o: "open_read number_world (u ''input.json'') = Inr (u ''{\"question\": 42}'')"
    by (simp add: number_world_def example_world_def)
  have j: "json_loads number_world (u ''{\"question\": 42}'') =
             Inr (PDict [(u ''question'', PInt 42)])"
    by (simp add: number_world_def example_world_def)
  have c: "(\<forall>kvs. PDict [(u ''question'', PInt 42)] \<noteq> PDict kvs) \<or>
           (\<exists>kvs x. PDict [(u ''question'', PInt 42)] = PDict kvs \<and>
              map_of kvs (u ''question'') = Some x \<and> (\<forall>s. x \<noteq> PStr s))"
    by simp
  show ?thesis using ill_typed_input_exits_1 [OF o j c] .
qed

end
